theory Spec2Isabelle
  imports Complex_Main "HOL-Library.Stream"
begin

section \<open>Values: numpy floats with their special values\<close>

text \<open>
  The statistics of \<^verbatim>\<open>main.py\<close> are numpy \<^verbatim>\<open>float64\<close> computations. numpy does not
  raise on a division by zero or on the square root of a negative number: it returns
  \<^verbatim>\<open>inf\<close>, \<^verbatim>\<open>-inf\<close> or \<^verbatim>\<open>nan\<close> (with a warning). The model keeps these three special
  values apart from the finite ones and computes on finite values in exact real
  arithmetic: rounding, overflow and the sign of zero are not modelled.
\<close>

datatype npfloat = Fin real | PInf | NInf | NaN

datatype py_error = ValueError | IndexError | ZeroDivisionError

fun np_add :: "npfloat \<Rightarrow> npfloat \<Rightarrow> npfloat" where
  "np_add NaN y = NaN"
| "np_add x NaN = NaN"
| "np_add (Fin a) (Fin b) = Fin (a + b)"
| "np_add PInf NInf = NaN"
| "np_add NInf PInf = NaN"
| "np_add PInf y = PInf"
| "np_add x PInf = PInf"
| "np_add NInf y = NInf"
| "np_add x NInf = NInf"




text \<open>The product of an infinity and a finite value: zero gives \<^verbatim>\<open>nan\<close>.\<close>

definition inf_times :: "bool \<Rightarrow> real \<Rightarrow> npfloat" where
  "inf_times positive a =
     (if a = 0 then NaN else if (0 < a) = positive then PInf else NInf)"

fun np_mul :: "npfloat \<Rightarrow> npfloat \<Rightarrow> npfloat" where
  "np_mul NaN y = NaN"
| "np_mul x NaN = NaN"
| "np_mul (Fin a) (Fin b) = Fin (a * b)"
| "np_mul PInf (Fin b) = inf_times True b"
| "np_mul NInf (Fin b) = inf_times False b"
| "np_mul (Fin a) PInf = inf_times True a"
| "np_mul (Fin a) NInf = inf_times False a"
| "np_mul PInf PInf = PInf"
| "np_mul NInf NInf = PInf"
| "np_mul PInf NInf = NInf"
| "np_mul NInf PInf = NInf"

text \<open>
  Division. A finite non-zero value divided by zero is an infinity, zero divided by zero
  is \<^verbatim>\<open>nan\<close>; nothing is raised.
\<close>

fun np_div :: "npfloat \<Rightarrow> npfloat \<Rightarrow> npfloat" where
  "np_div NaN y = NaN"
| "np_div x NaN = NaN"
| "np_div (Fin a) (Fin b) =
     (if b \<noteq> 0 then Fin (a / b)
      else if 0 < a then PInf else if a < 0 then NInf else NaN)"
| "np_div (Fin a) PInf = Fin 0"
| "np_div (Fin a) NInf = Fin 0"
| "np_div PInf (Fin b) = (if 0 \<le> b then PInf else NInf)"
| "np_div NInf (Fin b) = (if 0 \<le> b then NInf else PInf)"
| "np_div PInf PInf = NaN"
| "np_div PInf NInf = NaN"
| "np_div NInf PInf = NaN"
| "np_div NInf NInf = NaN"

text \<open>\<^verbatim>\<open>np.sqrt\<close>: the square root of a negative number is \<^verbatim>\<open>nan\<close>.\<close>

fun np_sqrt :: "npfloat \<Rightarrow> npfloat" where
  "np_sqrt (Fin a) = (if a < 0 then NaN else Fin (sqrt a))"
| "np_sqrt PInf = PInf"
| "np_sqrt NInf = NaN"
| "np_sqrt NaN = NaN"


fun is_finite :: "npfloat \<Rightarrow> bool" where
  "is_finite (Fin a) = True"
| "is_finite x = False"

text \<open>\<^verbatim>\<open>np.sum\<close> of a one-dimensional array, \<^verbatim>\<open>np.dot\<close> of two vectors.\<close>

definition np_sum :: "npfloat list \<Rightarrow> npfloat" where
  "np_sum xs = foldl np_add (Fin 0) xs"

definition np_dot :: "npfloat list \<Rightarrow> npfloat list \<Rightarrow> npfloat" where
  "np_dot xs ys = np_sum (map2 np_mul xs ys)"

section \<open>The return table and its statistics\<close>

text \<open>
  A return table (the \<^verbatim>\<open>DataFrame\<close> \<^verbatim>\<open>returns\<close>) is the list of its columns, one per
  asset, each the list of that asset's period returns. \<^verbatim>\<open>compute_log_returns\<close> drops
  the rows with a missing value, so the entries are numbers; the columns of a table of
  \<open>n\<close> rows all have length \<open>n\<close>.
\<close>

type_synonym return_table = "real list list"

definition rectangular :: "nat \<Rightarrow> return_table \<Rightarrow> bool" where
  "rectangular n returns = list_all (\<lambda>c. length c = n) returns"

definition NUM_TRADING_DAYS :: nat where
  "NUM_TRADING_DAYS = 252"

definition average :: "real list \<Rightarrow> real" where
  "average c = sum_list c / real (length c)"

text \<open>\<^verbatim>\<open>returns.mean()\<close>: the mean of each column; of an empty column it is \<^verbatim>\<open>nan\<close>.\<close>

definition col_mean :: "real list \<Rightarrow> npfloat" where
  "col_mean c = (if c = [] then NaN else Fin (average c))"

text \<open>
  \<^verbatim>\<open>returns.cov()\<close>: the sample covariance (one delta degree of freedom) of every pair of
  columns. With fewer than two rows the normalisation \<open>1 / (n - 1)\<close> is a division by
  zero and every entry is \<^verbatim>\<open>nan\<close>.
\<close>

definition deviations :: "real list \<Rightarrow> real list" where
  "deviations c = map (\<lambda>a. a - average c) c"

definition cov_entry :: "real list \<Rightarrow> real list \<Rightarrow> npfloat" where
  "cov_entry x y =
     (if length x < 2 then NaN
      else Fin (sum_list (map2 (*) (deviations x) (deviations y)) * (1 / (real (length x) - 1))))"

definition cov :: "return_table \<Rightarrow> npfloat list list" where
  "cov returns = map (\<lambda>x. map (\<lambda>y. cov_entry x y) returns) returns"

section \<open>\<^verbatim>\<open>portfolio_performance\<close>\<close>

text \<open>
  \<^verbatim>\<open>
  def portfolio_performance(weights, returns):
      mean_return = np.sum(weights * returns.mean()) * NUM_TRADING_DAYS
      volatility = np.sqrt(np.dot(weights.T, np.dot(returns.cov() * NUM_TRADING_DAYS, weights)))
      sharpe_ratio = mean_return / volatility
      return mean_return, volatility, sharpe_ratio
  \<close>
  A weight vector whose length is not the number of columns makes the array operations
  raise \<^verbatim>\<open>ValueError\<close>.
\<close>

type_synonym triple = "npfloat \<times> npfloat \<times> npfloat"

definition mean_return :: "npfloat list \<Rightarrow> return_table \<Rightarrow> npfloat" where
  "mean_return weights returns =
     np_mul (np_sum (map2 np_mul weights (map col_mean returns))) (Fin (real NUM_TRADING_DAYS))"

definition quadratic_form :: "npfloat list \<Rightarrow> return_table \<Rightarrow> npfloat" where
  "quadratic_form weights returns =
     np_dot weights
       (map (\<lambda>row. np_dot (map (\<lambda>c. np_mul c (Fin (real NUM_TRADING_DAYS))) row) weights)
          (cov returns))"

definition volatility :: "npfloat list \<Rightarrow> return_table \<Rightarrow> npfloat" where
  "volatility weights returns = np_sqrt (quadratic_form weights returns)"

definition portfolio_performance :: "npfloat list \<Rightarrow> return_table \<Rightarrow> py_error + triple" where
  "portfolio_performance weights returns =
     (if length weights \<noteq> length returns then Inl ValueError
      else
        let m = mean_return weights returns;
            v = volatility weights returns;
            sharpe_ratio = np_div m v
        in Inr (m, v, sharpe_ratio))"

section \<open>\<^verbatim>\<open>simulate_portfolios\<close>\<close>

text \<open>
  The sampler reads the process-wide generator \<^verbatim>\<open>np.random\<close>. Its state is made explicit
  as the stream of the numbers it will deliver; \<^verbatim>\<open>np.random.random(n)\<close> takes the next
  \<open>n\<close> of them and leaves the rest.
\<close>

type_synonym rng = "real stream"

definition random_sample :: "nat \<Rightarrow> rng \<Rightarrow> npfloat list \<times> rng" where
  "random_sample n g = (map Fin (stake n g), sdrop n g)"

text \<open>
  \<^verbatim>\<open>weights = np.random.random(len(returns.columns)); weights /= np.sum(weights)\<close>
\<close>

definition draw_weights :: "nat \<Rightarrow> rng \<Rightarrow> npfloat list \<times> rng" where
  "draw_weights n g =
     (let (weights, g') = random_sample n g;
          total = np_sum weights
      in (map (\<lambda>w. np_div w total) weights, g'))"

record sim_state =
  results :: "npfloat list list"
  weights_record :: "npfloat list list"
  random_state :: rng

text \<open>\<^verbatim>\<open>a[r, i] = v\<close> on a two-dimensional array, for indices that are not negative.\<close>

definition set_item :: "npfloat list list \<Rightarrow> nat \<Rightarrow> nat \<Rightarrow> npfloat \<Rightarrow> py_error + npfloat list list" where
  "set_item a r i v =
     (if r < length a \<and> i < length (a ! r) then Inr (a[r := (a ! r)[i := v]])
      else Inl IndexError)"

text \<open>
  The body of the loop, at index \<open>i\<close>:
  \<^verbatim>\<open>
      weights = np.random.random(len(returns.columns))
      weights /= np.sum(weights)
      weights_record.append(weights)
      mean, vol, sharpe = portfolio_performance(weights, returns)
      results[0, i] = mean
      results[1, i] = vol
      results[2, i] = sharpe
  \<close>
\<close>

definition loop_body :: "return_table \<Rightarrow> nat \<Rightarrow> sim_state \<Rightarrow> py_error + sim_state" where
  "loop_body returns i st =
     (let (weights, g) = draw_weights (length returns) (random_state st);
          recorded = weights_record st @ [weights]
      in case portfolio_performance weights returns of
           Inl e \<Rightarrow> Inl e
         | Inr (mean, vol, sharpe) \<Rightarrow>
             (case set_item (results st) 0 i mean of
                Inl e \<Rightarrow> Inl e
              | Inr r0 \<Rightarrow>
                  (case set_item r0 1 i vol of
                     Inl e \<Rightarrow> Inl e
                   | Inr r1 \<Rightarrow>
                       (case set_item r1 2 i sharpe of
                          Inl e \<Rightarrow> Inl e
                        | Inr r2 \<Rightarrow>
                            Inr \<lparr>results = r2, weights_record = recorded, random_state = g\<rparr>))))"

text \<open>\<^verbatim>\<open>for i in range(num_portfolios)\<close>: \<open>k\<close> iterations are left, the next index is \<open>i\<close>.\<close>

fun for_loop :: "return_table \<Rightarrow> nat \<Rightarrow> nat \<Rightarrow> sim_state \<Rightarrow> py_error + sim_state" where
  "for_loop returns i 0 st = Inr st"
| "for_loop returns i (Suc k) st =
     (case loop_body returns i st of
        Inl e \<Rightarrow> Inl e
      | Inr st' \<Rightarrow> for_loop returns (Suc i) k st')"

text \<open>
  \<^verbatim>\<open>
  def simulate_portfolios(returns, num_portfolios=NUM_PORTFOLIOS):
      results = np.zeros((3, num_portfolios))
      weights_record = []
      for i in range(num_portfolios): ...
      return np.array(weights_record), results
  \<close>
  \<^verbatim>\<open>np.zeros\<close> raises \<^verbatim>\<open>ValueError\<close> on a negative dimension. The model returns the
  state of the generator after the run beside the two arrays.
\<close>

definition NUM_PORTFOLIOS :: int where
  "NUM_PORTFOLIOS = 10000"

definition simulate_portfolios ::
  "return_table \<Rightarrow> int \<Rightarrow> rng \<Rightarrow> py_error + ((npfloat list list \<times> npfloat list list) \<times> rng)" where
  "simulate_portfolios returns num_portfolios g =
     (if num_portfolios < 0 then Inl ValueError
      else
        let st0 = \<lparr>results = replicate 3 (replicate (nat num_portfolios) (Fin 0)),
                   weights_record = [], random_state = g\<rparr>
        in case for_loop returns 0 (nat num_portfolios) st0 of
             Inl e \<Rightarrow> Inl e
           | Inr st \<Rightarrow> Inr ((weights_record st, results st), random_state st))"

text \<open>What a run produces, without the generator: the two arrays, or the error.\<close>

definition produced ::
  "py_error + ((npfloat list list \<times> npfloat list list) \<times> rng) \<Rightarrow>
   py_error + (npfloat list list \<times> npfloat list list)" where
  "produced r = (case r of Inl e \<Rightarrow> Inl e | Inr (out, g) \<Rightarrow> Inr out)"

text \<open>Column \<open>i\<close> of the results array: the triple of trial \<open>i\<close>.\<close>

definition column :: "npfloat list list \<Rightarrow> nat \<Rightarrow> triple" where
  "column a i = (a ! 0 ! i, a ! 1 ! i, a ! 2 ! i)"

section \<open>The properties, as the specification words them\<close>





definition annualizedReturn :: "real list \<Rightarrow> return_table \<Rightarrow> nat \<Rightarrow> real" where
  "annualizedReturn w returns periodsPerYear =
     (\<Sum>i<length w. w ! i * average (returns ! i)) * real periodsPerYear"





section \<open>Auxiliary notions of the proofs\<close>

text \<open>The shape of the results array: three rows of \<open>N\<close> entries.\<close>

definition wf_results :: "nat \<Rightarrow> npfloat list list \<Rightarrow> bool" where
  "wf_results N a \<longleftrightarrow>
     length a = 3 \<and> length (a ! 0) = N \<and> length (a ! 1) = N \<and> length (a ! 2) = N"

text \<open>The weight vector of trial \<open>j\<close> of a run that starts with the generator at \<open>g\<close>.\<close>

definition trial_weights :: "return_table \<Rightarrow> rng \<Rightarrow> nat \<Rightarrow> npfloat list" where
  "trial_weights returns g j =
     fst (draw_weights (length returns) (sdrop (j * length returns) g))"

section \<open>Finite values compute as real numbers\<close>

lemma foldl_np_add_Fin: "foldl np_add (Fin a) (map Fin xs) = Fin (a + sum_list xs)"
  by (induction xs arbitrary: a) (simp_all add: add.assoc)

lemma np_sum_Fin: "np_sum (map Fin xs) = Fin (sum_list xs)"
  by (simp add: np_sum_def foldl_np_add_Fin)

lemma map2_np_mul_Fin: "map2 np_mul (map Fin xs) (map Fin ys) = map Fin (map2 (*) xs ys)"
  by (auto simp: zip_map_map)


lemma sum_list_map2_nth:
  "length xs = length ys \<Longrightarrow>
   sum_list (map2 (*) xs ys) = (\<Sum>t<length xs. xs ! t * ys ! (t::nat) :: real)"
  by (simp add: sum_list_sum_nth lessThan_atLeast0)

lemma rectangularD: "rectangular n returns \<Longrightarrow> c \<in> set returns \<Longrightarrow> length c = n"
  by (simp add: rectangular_def list_all_iff)


lemma mean_return_Fin:
  assumes "rectangular n returns" "0 < n" "length w = length returns"
  shows "mean_return (map Fin w) returns = Fin (annualizedReturn w returns NUM_TRADING_DAYS)"
proof -
  have "map col_mean returns = map Fin (map average returns)"
    using assms(1,2) by (auto simp: col_mean_def dest: rectangularD)
  then have "np_sum (map2 np_mul (map Fin w) (map col_mean returns))
           = Fin (sum_list (map2 (*) w (map average returns)))"
    by (simp only: map2_np_mul_Fin np_sum_Fin)
  also have "sum_list (map2 (*) w (map average returns))
           = (\<Sum>i<length w. w ! i * average (returns ! i))"
    using assms(3) by (simp add: sum_list_map2_nth)
  finally show ?thesis
    by (simp add: mean_return_def annualizedReturn_def)
qed


section \<open>The quadratic form of a sample covariance matrix is not negative\<close>



section \<open>The sampling loop\<close>

lemma length_draw_weights: "length (fst (draw_weights n g)) = n"
  by (simp add: draw_weights_def random_sample_def Let_def)

lemma snd_draw_weights: "snd (draw_weights n g) = sdrop n g"
  by (simp add: draw_weights_def random_sample_def Let_def)

lemma length_trial_weights: "length (trial_weights returns g j) = length returns"
  by (simp add: trial_weights_def length_draw_weights)

lemma portfolio_performance_Inr:
  "length weights = length returns \<Longrightarrow>
   portfolio_performance weights returns =
     Inr (mean_return weights returns, volatility weights returns,
          np_div (mean_return weights returns) (volatility weights returns))"
  by (simp add: portfolio_performance_def Let_def)

lemma wf_results_zeros: "wf_results N (replicate 3 (replicate N (Fin 0)))"
  by (simp add: wf_results_def numeral_3_eq_3)

lemma wf_results_rows:
  assumes "wf_results N R"
  obtains a b c where "R = [a, b, c]" "length a = N" "length b = N" "length c = N"
  using assms
  by (cases R; cases "tl R"; cases "tl (tl R)"; cases "tl (tl (tl R))") (auto simp: wf_results_def)

lemma loop_body_ok:
  assumes "wf_results N (results st)" "i < N"
  shows "\<exists>st'. loop_body returns i st = Inr st'
     \<and> weights_record st' = weights_record st @ [fst (draw_weights (length returns) (random_state st))]
     \<and> random_state st' = sdrop (length returns) (random_state st)
     \<and> wf_results N (results st')
     \<and> Inr (column (results st') i) =
         portfolio_performance (fst (draw_weights (length returns) (random_state st))) returns
     \<and> (\<forall>c. c \<noteq> i \<longrightarrow> column (results st') c = column (results st) c)"
proof -
  obtain ws g where dw: "draw_weights (length returns) (random_state st) = (ws, g)"
    by (cases "draw_weights (length returns) (random_state st)")
  have len: "length ws = length returns"
    using length_draw_weights[of "length returns" "random_state st"] dw by simp
  have g: "g = sdrop (length returns) (random_state st)"
    using snd_draw_weights[of "length returns" "random_state st"] dw by simp
  show ?thesis
    using assms
    by (simp add: loop_body_def dw portfolio_performance_Inr[OF len] set_item_def wf_results_def
        column_def g nth_list_update)
qed

lemma for_loop_ok:
  assumes "wf_results N (results st)" "i + k \<le> N"
  shows "\<exists>st'. for_loop returns i k st = Inr st'
     \<and> weights_record st' = weights_record st @ map (trial_weights returns (random_state st)) [0..<k]
     \<and> random_state st' = sdrop (k * length returns) (random_state st)
     \<and> wf_results N (results st')
     \<and> (\<forall>j<k. Inr (column (results st') (i + j)) =
            portfolio_performance (trial_weights returns (random_state st) j) returns)
     \<and> (\<forall>c<i. column (results st') c = column (results st) c)"
  using assms
proof (induction k arbitrary: i st)
  case 0
  then show ?case by simp
next
  case (Suc k)
  let ?n = "length returns"
  from Suc.prems have "i < N" by simp
  from loop_body_ok[OF Suc.prems(1) this, of returns]
  obtain st1 where b: "loop_body returns i st = Inr st1"
    and w1: "weights_record st1 = weights_record st @ [fst (draw_weights ?n (random_state st))]"
    and g1: "random_state st1 = sdrop ?n (random_state st)"
    and wf1: "wf_results N (results st1)"
    and c1: "Inr (column (results st1) i) =
         portfolio_performance (fst (draw_weights ?n (random_state st))) returns"
    and f1: "\<forall>c. c \<noteq> i \<longrightarrow> column (results st1) c = column (results st) c"
    by blast
  from Suc.prems have "Suc i + k \<le> N" by simp
  from Suc.IH[OF wf1 this]
  obtain st2 where l: "for_loop returns (Suc i) k st1 = Inr st2"
    and w2: "weights_record st2 =
        weights_record st1 @ map (trial_weights returns (random_state st1)) [0..<k]"
    and g2: "random_state st2 = sdrop (k * ?n) (random_state st1)"
    and wf2: "wf_results N (results st2)"
    and c2: "\<forall>j<k. Inr (column (results st2) (Suc i + j)) =
            portfolio_performance (trial_weights returns (random_state st1) j) returns"
    and f2: "\<forall>c<Suc i. column (results st2) c = column (results st1) c"
    by blast
  have tw: "trial_weights returns (random_state st1) j =
      trial_weights returns (random_state st) (Suc j)" for j
    by (simp add: trial_weights_def g1 add.commute)
  have tw0: "fst (draw_weights ?n (random_state st)) = trial_weights returns (random_state st) 0"
    by (simp add: trial_weights_def)
  have "for_loop returns i (Suc k) st = Inr st2" by (simp add: b l)
  moreover have "weights_record st2 =
      weights_record st @ map (trial_weights returns (random_state st)) [0..<Suc k]"
  proof -
    have "(\<lambda>j. trial_weights returns (random_state st) (Suc j)) =
        trial_weights returns (random_state st1)"
      by (rule ext) (simp add: tw)
    then show ?thesis
      by (simp add: w2 w1 tw0 map_upt_Suc del: upt_Suc)
  qed
  moreover have "random_state st2 = sdrop (Suc k * ?n) (random_state st)"
    by (simp add: g2 g1 add.commute)
  moreover have "\<forall>j<Suc k. Inr (column (results st2) (i + j)) =
            portfolio_performance (trial_weights returns (random_state st) j) returns"
  proof (intro allI impI)
    fix j assume j: "j < Suc k"
    show "Inr (column (results st2) (i + j)) =
            portfolio_performance (trial_weights returns (random_state st) j) returns"
    proof (cases j)
      case 0
      then show ?thesis using f2 c1 by (simp add: tw0)
    next
      case (Suc j')
      then show ?thesis using c2 j by (simp add: tw)
    qed
  qed
  moreover have "\<forall>c<i. column (results st2) c = column (results st) c"
    using f1 f2 by simp
  ultimately show ?case using wf2 by blast
qed

lemma simulate_ok:
  assumes "0 \<le> num"
  shows "\<exists>R. simulate_portfolios returns num g =
           Inr ((map (trial_weights returns g) [0..<nat num], R), sdrop (nat num * length returns) g)
     \<and> wf_results (nat num) R
     \<and> (\<forall>j<nat num. Inr (column R j) = portfolio_performance (trial_weights returns g j) returns)"
proof -
  let ?st0 = "\<lparr>results = replicate 3 (replicate (nat num) (Fin 0)),
               weights_record = [], random_state = g\<rparr>"
  have "wf_results (nat num) (results ?st0)" by (simp add: wf_results_zeros)
  from for_loop_ok[OF this, of 0 "nat num" returns]
  obtain st' where "for_loop returns 0 (nat num) ?st0 = Inr st'"
    and "weights_record st' = map (trial_weights returns g) [0..<nat num]"
    and "random_state st' = sdrop (nat num * length returns) g"
    and "wf_results (nat num) (results st')"
    and "\<forall>j<nat num. Inr (column (results st') j) =
            portfolio_performance (trial_weights returns g j) returns"
    by auto
  then show ?thesis using assms
    by (simp add: simulate_portfolios_def)
qed

lemma trial_draws_prefix:
  assumes "stake (k * n) g1 = stake (k * n) (g2 :: 'a stream)" "j < k"
  shows "stake n (sdrop (j * n) g1) = stake n (sdrop (j * n) g2)"
proof -
  have le: "j * n + n \<le> k * n"
    using assms(2) by (metis Suc_leI mult_Suc mult_le_mono1 add.commute)
  have "stake n (sdrop (j * n) g) = drop (j * n) (take (j * n + n) (stake (k * n) g))"
    for g :: "'a stream"
    using le by (simp add: take_stake drop_stake min_absorb1)
  then show ?thesis using assms(1) by simp
qed

lemma draw_weights_stake:
  "stake n g1 = stake n g2 \<Longrightarrow> fst (draw_weights n g1) = fst (draw_weights n g2)"
  by (simp add: draw_weights_def random_sample_def Let_def)





text \<open>The definitions that evaluate \<^verbatim>\<open>portfolio_performance\<close> on a concrete input.\<close>

lemmas pp_defs = portfolio_performance_def mean_return_def volatility_def quadratic_form_def
  cov_def cov_entry_def deviations_def col_mean_def average_def np_dot_def np_sum_def
  NUM_TRADING_DAYS_def

section \<open>The verified properties\<close>

text \<open>
  C1 (as amended). Whenever the computed annualized volatility is exactly 0,
  \<^verbatim>\<open>portfolio_performance\<close> raises nothing and returns the plain float quotient
  \<^verbatim>\<open>mean_return / volatility\<close> as the Sharpe ratio: an infinity when the annualized
  return is not zero, \<^verbatim>\<open>nan\<close> when it is zero or \<^verbatim>\<open>nan\<close>. The triple carries no marker
  of its own for the undefined ratio.
\<close>

theorem portfolio_performance_zero_volatility:
  assumes "length weights = length returns" "volatility weights returns = Fin 0"
  shows "\<exists>m s. portfolio_performance weights returns = Inr (m, Fin 0, s)
     \<and> (s = PInf \<or> s = NInf \<or> s = NaN)
     \<and> (s = NaN) = (m = Fin 0 \<or> m = NaN)"
proof -
  let ?m = "mean_return weights returns"
  have pp: "portfolio_performance weights returns = Inr (?m, Fin 0, np_div ?m (Fin 0))"
    using assms by (simp add: portfolio_performance_Inr)
  have "np_div ?m (Fin 0) = PInf \<or> np_div ?m (Fin 0) = NInf \<or> np_div ?m (Fin 0) = NaN"
    by (cases ?m) auto
  moreover have "(np_div ?m (Fin 0) = NaN) = (?m = Fin 0 \<or> ?m = NaN)"
    by (cases ?m) auto
  ultimately show ?thesis using pp by blast
qed

theorem portfolio_performance_zero_volatility_witness:
  "length [Fin (-1)] = length [[1, 1::real]] \<and> volatility [Fin (-1)] [[1, 1]] = Fin 0 \<and>
   (\<exists>m s. portfolio_performance [Fin (-1)] [[1, 1]] = Inr (m, Fin 0, s)
     \<and> (s = PInf \<or> s = NInf \<or> s = NaN)
     \<and> (s = NaN) = (m = Fin 0 \<or> m = NaN))"
proof -
  have h1: "length [Fin (-1)] = length [[1, 1::real]]" by simp
  have h2: "volatility [Fin (-1)] [[1, 1]] = Fin 0" by (simp add: pp_defs)
  from portfolio_performance_zero_volatility[OF h1 h2] h1 h2 show ?thesis by blast
qed

text \<open>
  C1 as stated fails: one asset whose return is 1 in both periods, held with weight 1,
  has volatility exactly 0, and the Sharpe ratio returned is \<^verbatim>\<open>inf\<close>.
\<close>

theorem zero_volatility_sharpe_counterexample:
  "portfolio_performance [Fin 1] [[1, 1]] = Inr (Fin 252, Fin 0, PInf)"
  by (simp add: pp_defs)







text \<open>
  C6. For every return table with at least one row and every weight vector of numbers,
  one per asset, the annualized return computed by \<^verbatim>\<open>portfolio_performance\<close> is the
  weighted sum of the per-asset mean period returns, multiplied by the number of periods
  per year (the constant \<^verbatim>\<open>NUM_TRADING_DAYS\<close>); in a single-asset universe, where the
  weight vector is \<open>[1]\<close>, it is the mean of the asset's returns times that number.
\<close>

theorem annualized_return_weighted_sum:
  assumes "rectangular n returns" "0 < n" "length w = length returns"
  shows "(\<exists>v s. portfolio_performance (map Fin w) returns =
            Inr (Fin ((\<Sum>i<length w. w ! i * average (returns ! i)) * real NUM_TRADING_DAYS), v, s))
       \<and> (w = [1] \<longrightarrow>
            (\<exists>v s. portfolio_performance (map Fin w) returns =
               Inr (Fin (average (returns ! 0) * real NUM_TRADING_DAYS), v, s)))"
proof -
  have m: "mean_return (map Fin w) returns =
      Fin ((\<Sum>i<length w. w ! i * average (returns ! i)) * real NUM_TRADING_DAYS)"
    using mean_return_Fin[OF assms] by (simp add: annualizedReturn_def)
  have first: "\<exists>v s. portfolio_performance (map Fin w) returns =
            Inr (Fin ((\<Sum>i<length w. w ! i * average (returns ! i)) * real NUM_TRADING_DAYS), v, s)"
    using assms(3) m by (simp add: portfolio_performance_Inr)
  have "\<exists>v s. portfolio_performance (map Fin w) returns =
               Inr (Fin (average (returns ! 0) * real NUM_TRADING_DAYS), v, s)"
    if "w = [1]"
    using first that by simp
  with first show ?thesis by blast
qed

theorem annualized_return_weighted_sum_witness:
  "rectangular 2 [[1, 3]] \<and> (0::nat) < 2 \<and> length [1::real] = length [[1, 3::real]]
   \<and> (\<exists>v s. portfolio_performance [Fin 1] [[1, 3]] = Inr (Fin 504, v, s))"
proof -
  have h1: "rectangular 2 [[1, 3]]" by (simp add: rectangular_def)
  have h2: "(0::nat) < 2" by simp
  have h3: "length [1::real] = length [[1, 3::real]]" by simp
  from annualized_return_weighted_sum[OF h1 h2 h3]
  have "\<exists>v s. portfolio_performance (map Fin [1]) [[1, 3]] =
      Inr (Fin (average ([[1, 3]] ! 0) * real NUM_TRADING_DAYS), v, s)"
    by blast
  moreover have "average ([[1, 3]] ! 0) * real NUM_TRADING_DAYS = 504"
    by (simp add: average_def NUM_TRADING_DAYS_def)
  ultimately show ?thesis using h1 h2 h3 by simp
qed

text \<open>
  C7. Two runs of the sampler over the same return table with the same trial count
  produce the same sequence of weight vectors (and the same results array, and the same
  error if the trial count is negative) as soon as their random sources deliver the same
  first \<open>trials \<times> assetCount\<close> numbers, in particular when they start from the same
  state of the generator.
\<close>

theorem simulate_portfolios_reproducible:
  assumes "stake (nat num * length returns) g1 = stake (nat num * length returns) g2"
  shows "produced (simulate_portfolios returns num g1) = produced (simulate_portfolios returns num g2)"
proof (cases "num < 0")
  case True
  then show ?thesis by (simp add: simulate_portfolios_def produced_def)
next
  case False
  then have n0: "0 \<le> num" by simp
  have tw: "trial_weights returns g1 j = trial_weights returns g2 j" if "j < nat num" for j
    unfolding trial_weights_def
    by (rule draw_weights_stake) (rule trial_draws_prefix[OF assms that])
  from simulate_ok[OF n0, of returns g1]
  obtain R1 where s1: "simulate_portfolios returns num g1 =
           Inr ((map (trial_weights returns g1) [0..<nat num], R1), sdrop (nat num * length returns) g1)"
    and wf1: "wf_results (nat num) R1"
    and c1: "\<forall>j<nat num. Inr (column R1 j) = portfolio_performance (trial_weights returns g1 j) returns"
    by blast
  from simulate_ok[OF n0, of returns g2]
  obtain R2 where s2: "simulate_portfolios returns num g2 =
           Inr ((map (trial_weights returns g2) [0..<nat num], R2), sdrop (nat num * length returns) g2)"
    and wf2: "wf_results (nat num) R2"
    and c2: "\<forall>j<nat num. Inr (column R2 j) = portfolio_performance (trial_weights returns g2 j) returns"
    by blast
  have W: "map (trial_weights returns g1) [0..<nat num] = map (trial_weights returns g2) [0..<nat num]"
    by (simp add: tw)
  have col: "column R1 j = column R2 j" if "j < nat num" for j
    using c1 c2 tw[OF that] that by (metis sum.inject(2))
  have "R1 = R2"
  proof -
    from wf1 obtain a b c where R1: "R1 = [a, b, c]"
      "length a = nat num" "length b = nat num" "length c = nat num"
      by (rule wf_results_rows)
    from wf2 obtain a' b' c' where R2: "R2 = [a', b', c']"
      "length a' = nat num" "length b' = nat num" "length c' = nat num"
      by (rule wf_results_rows)
    have "a = a'" "b = b'" "c = c'"
      using col R1 R2 by (auto simp: column_def intro!: nth_equalityI)
    then show ?thesis using R1 R2 by simp
  qed
  then show ?thesis by (simp add: s1 s2 W produced_def)
qed

theorem simulate_portfolios_reproducible_witness:
  "stake (nat 2 * length [[1, 3], [2, 2::real]]) (sconst 1) =
     stake (nat 2 * length [[1, 3], [2, 2::real]]) (1 ## 1 ## 1 ## 1 ## sconst 0)
   \<and> produced (simulate_portfolios [[1, 3], [2, 2]] 2 (sconst 1)) =
     produced (simulate_portfolios [[1, 3], [2, 2]] 2 (1 ## 1 ## 1 ## 1 ## sconst 0))"
proof -
  have h: "stake (nat 2 * length [[1, 3], [2, 2::real]]) (sconst 1) =
     stake (nat 2 * length [[1, 3], [2, 2::real]]) (1 ## 1 ## 1 ## 1 ## sconst 0)"
    by (simp add: eval_nat_numeral)
  from simulate_portfolios_reproducible[OF h] h show ?thesis by blast
qed

text \<open>
  C8. Invoked with \<open>trials = 0\<close>, the sampler returns an empty result and raises nothing:
  the weights record holds no weight vector, and the three rows of the results array
  (returns, volatilities, Sharpe ratios) hold no entry, so there is no triple. The
  generator is left as it was.
\<close>

theorem simulate_portfolios_zero_trials:
  "simulate_portfolios returns 0 g = Inr (([], [[], [], []]), g)"
  by (simp add: simulate_portfolios_def numeral_3_eq_3)

text \<open>
  C9. For every return table and every positive trial count, the run returns (it raises
  nothing) a parallel pairing: the weights record holds exactly \<open>trials\<close> weight
  vectors, each of length the number of assets; the results array has three rows of
  exactly \<open>trials\<close> entries, that is \<open>trials\<close> triples; and the triple at every index \<open>i\<close>
  is \<^verbatim>\<open>portfolio_performance\<close> of the weight vector recorded at \<open>i\<close> and the same table.
\<close>

theorem simulate_portfolios_parallel:
  assumes "0 < num"
  shows "\<exists>W R g'. simulate_portfolios returns num g = Inr ((W, R), g')
     \<and> length W = nat num \<and> list_all (\<lambda>w. length w = length returns) W
     \<and> length R = 3 \<and> list_all (\<lambda>row. length row = nat num) R
     \<and> (\<forall>i<nat num. portfolio_performance (W ! i) returns = Inr (column R i))"
proof -
  from assms have "0 \<le> num" by simp
  from simulate_ok[OF this, of returns g]
  obtain R where s: "simulate_portfolios returns num g =
           Inr ((map (trial_weights returns g) [0..<nat num], R), sdrop (nat num * length returns) g)"
    and wf: "wf_results (nat num) R"
    and c: "\<forall>j<nat num. Inr (column R j) = portfolio_performance (trial_weights returns g j) returns"
    by blast
  have rows: "list_all (\<lambda>row. length row = nat num) R"
    using wf by (rule wf_results_rows) simp
  show ?thesis
    using s wf c rows
    by (auto simp: wf_results_def list_all_iff length_trial_weights)
qed

theorem simulate_portfolios_parallel_witness:
  "(0::int) < 2 \<and>
   (\<exists>W R g'. simulate_portfolios [[1, 3], [2, 2]] 2 (sconst 1) = Inr ((W, R), g')
      \<and> length W = 2 \<and> length R = 3
      \<and> portfolio_performance (W ! 0) [[1, 3], [2, 2]] = Inr (column R 0)
      \<and> portfolio_performance (W ! 1) [[1, 3], [2, 2]] = Inr (column R 1))"
  using simulate_portfolios_parallel[of 2 "[[1, 3], [2, 2]]" "sconst 1"]
  by auto




end
